theory Spec2Isabelle
  imports Main "HOL-Library.AList" "HOL-Library.Sublist"
begin

section \<open>CrossyPosty: conversation state machine and publish orchestrator (bot.py)\<close>

text \<open>
  A shallow embedding of the handlers of \<^verbatim>\<open>bot.py\<close>. One \<open>world\<close> value holds what the
  handlers read and write for one chat user: the FSM state and the FSM data bag of aiogram,
  the contents of \<^verbatim>\<open>data/tokens.json\<close>, the files under \<^verbatim>\<open>downloads/\<close>, and the sequence of
  calls made to the outside (chat transport, platform collaborators, file system, logger).
  A handler returns the exception that leaves it, if any, together with the world as it is
  at that moment: what was written before a raise stays written.

  The platform collaborators (code exchange, login, upload), the chat service's file
  download and the clock are inputs: the record \<open>env\<close> fixes what each call returns or raises.
  Sending and editing chat messages is taken to succeed.
\<close>

subsection \<open>Python string operations used by the handlers\<close>

text \<open>
  Strings are lists of code points below 256. \<open>is_space\<close> is \<^verbatim>\<open>str.isspace\<close> on that range.
\<close>

definition is_space :: "char \<Rightarrow> bool" where
  "is_space c =
     (let n = (of_char c :: nat)
      in (9 \<le> n \<and> n \<le> 13) \<or> (28 \<le> n \<and> n \<le> 32) \<or> n = 133 \<or> n = 160)"

text \<open>\<^verbatim>\<open>s.strip()\<close>\<close>

definition strip :: "string \<Rightarrow> string" where
  "strip s = rev (dropWhile is_space (rev (dropWhile is_space s)))"

text \<open>\<^verbatim>\<open>s.split(maxsplit=1)\<close>\<close>

definition split1 :: "string \<Rightarrow> string list" where
  "split1 s =
     (let s1 = dropWhile is_space s in
      if s1 = [] then []
      else
        let word = takeWhile (\<lambda>c. \<not> is_space c) s1;
            rest = dropWhile is_space (dropWhile (\<lambda>c. \<not> is_space c) s1)
        in if rest = [] then [word] else [word, rest])"

text \<open>
  \<^verbatim>\<open>s.replace(old, "")\<close> for a non-empty \<open>old\<close>: every occurrence found scanning from the
  left is dropped; the counter holds how many characters of the current occurrence are
  still to be skipped.
\<close>

fun replace_skip :: "string \<Rightarrow> nat \<Rightarrow> string \<Rightarrow> string" where
  "replace_skip old k [] = []"
| "replace_skip old (Suc k) (c # cs) = replace_skip old k cs"
| "replace_skip old 0 (c # cs) =
     (if old \<noteq> [] \<and> prefix old (c # cs) then replace_skip old (length old - 1) cs
      else c # replace_skip old 0 cs)"

definition replace_empty :: "string \<Rightarrow> string \<Rightarrow> string" where
  "replace_empty old s = replace_skip old 0 s"

text \<open>\<^verbatim>\<open>sub in s\<close>\<close>

fun contains :: "string \<Rightarrow> string \<Rightarrow> bool" where
  "contains sub [] = (sub = [])"
| "contains sub (c # cs) = (prefix sub (c # cs) \<or> contains sub cs)"

text \<open>
  \<^verbatim>\<open>re.search(r"access_token=([^&]+)", text)\<close>, giving \<^verbatim>\<open>match.group(1)\<close>: the leftmost
  position where the literal is followed by at least one character other than \<^verbatim>\<open>&\<close>, and
  the longest run of such characters there.
\<close>

fun search_access_token :: "string \<Rightarrow> string option" where
  "search_access_token [] = None"
| "search_access_token (c # cs) =
     (let run = takeWhile (\<lambda>x. x \<noteq> CHR ''&'') (drop 13 (c # cs)) in
      if prefix ''access_token='' (c # cs) \<and> run \<noteq> [] then Some run
      else search_access_token cs)"

subsection \<open>Token storage\<close>

text \<open>
  A Python dict is an association list with distinct keys in insertion order. Token data
  is a JSON object of string fields. The file is \<open>None\<close> while it does not exist. User ids
  are the keys (\<^verbatim>\<open>str(user_id)\<close> is one-to-one on integers).
\<close>

type_synonym token_data = "(string \<times> string) list"
type_synonym user_tokens = "(string \<times> token_data) list"
type_synonym tokens_db = "(int \<times> user_tokens) list"

definition load_tokens :: "tokens_db option \<Rightarrow> tokens_db" where
  "load_tokens file = (case file of Some d \<Rightarrow> d | None \<Rightarrow> [])"

definition save_tokens :: "tokens_db \<Rightarrow> tokens_db option" where
  "save_tokens d = Some d"

definition get_user_tokens :: "tokens_db option \<Rightarrow> int \<Rightarrow> user_tokens" where
  "get_user_tokens file user_id =
     (case map_of (load_tokens file) user_id of Some t \<Rightarrow> t | None \<Rightarrow> [])"

definition set_user_token ::
  "tokens_db option \<Rightarrow> int \<Rightarrow> string \<Rightarrow> token_data \<Rightarrow> tokens_db option" where
  "set_user_token file user_id platform td =
     (let d = load_tokens file;
          d1 = (if map_of d user_id = None then AList.update user_id [] d else d)
      in save_tokens (AList.map_entry user_id (AList.update platform td) d1))"

definition remove_user_token ::
  "tokens_db option \<Rightarrow> int \<Rightarrow> string \<Rightarrow> tokens_db option" where
  "remove_user_token file user_id platform =
     (let d = load_tokens file in
      case map_of d user_id of
        None \<Rightarrow> file
      | Some ut \<Rightarrow>
          if map_of ut platform \<noteq> None
          then save_tokens (AList.map_entry user_id (AList.delete platform) d)
          else file)"

subsection \<open>Platform registry\<close>

datatype emoji = PlayButton | MobilePhone | CameraFlash | MusicalNote

record platform_info =
  name :: string
  emoji :: emoji

definition PLATFORMS :: "(string \<times> platform_info) list" where
  "PLATFORMS =
     [(''youtube'', \<lparr>name = ''YouTube Shorts'', emoji = PlayButton\<rparr>),
      (''vk'', \<lparr>name = ''VK Clips'', emoji = MobilePhone\<rparr>),
      (''instagram'', \<lparr>name = ''Instagram Reels'', emoji = CameraFlash\<rparr>),
      (''tiktok'', \<lparr>name = ''TikTok'', emoji = MusicalNote\<rparr>)]"

subsection \<open>Conversation state, outputs and collaborators\<close>

datatype upload_flow =
  waiting_video | waiting_title | waiting_description | choosing_platforms | uploading

text \<open>The FSM data bag: a key that is absent from the dict is \<open>None\<close>.\<close>

record session_data =
  connecting :: "string option"
  video_file_id :: "string option"
  video_file_size :: "int option"
  title :: "string option"
  description :: "string option"
  selected_platforms :: "string list option"

definition empty_data :: session_data where
  "empty_data =
     \<lparr>connecting = None, video_file_id = None, video_file_size = None, title = None,
      description = None, selected_platforms = None\<rparr>"

text \<open>Exceptions that leave a handler.\<close>

datatype py_error = KeyError string | TypeError | CollaboratorError string

text \<open>One line of the publish report.\<close>

datatype report_line =
  Header
| Blank
| SuccessLine platform_info string
| FailureLine platform_info string

text \<open>The texts the bot sends, by the place that sends them.\<close>

datatype bot_text =
  PromptVideo
| RepromptVideo
| ConnectYouTube string
| YouTubeNotConfigured
| ConnectVK string
| VKNotConfigured
| ConnectInstagram
| ConnectTikTok string string
| TikTokNotConfigured
| YouTubeConnected
| VKConnected
| VKNoTokenInLink
| VKSendFullLink
| InstagramConnected
| InstagramSendPair
| TikTokConnected
| ExchangeError string
| LoginError string
| Disconnected string
| VideoTooBig
| AskTitle
| VideoNoteRefused
| AskDescription
| NoPlatformsConnected
| ChoosePlatforms
| SelectAtLeastOne
| Downloading
| UploadingTo platform_info
| Report "report_line list"

datatype button = PlatformButton bool platform_info string | PublishButton

datatype event =
  Answer bot_text
| AnswerKeyboard bot_text "button list"
| EditReplyMarkup "button list option"
| CallbackAnswer
| CallbackAlert bot_text
| StatusEdit bot_text
| ExchangeCall string string
| GetFile string
| DownloadFile string string
| UploadCall string string string string token_data
| OsRemove string
| LogInfo
| LogException string

record world =
  fsm_state :: "upload_flow option"
  fsm_data :: session_data
  tokens_file :: "tokens_db option"
  local_files :: "string list"
  calls :: "event list"

text \<open>
  What the outside returns: \<open>Inl\<close> is the message of the exception raised.
  An upload returns a dict whose \<^verbatim>\<open>url\<close> key may be absent.
\<close>

record env =
  get_auth_url :: "string option"
  vk_app_id :: string
  tiktok_client_key :: string
  tiktok_redirect_uri :: string
  youtube_exchange_code :: "string \<Rightarrow> string + token_data"
  instagram_login :: "string \<Rightarrow> string \<Rightarrow> string + string"
  tiktok_exchange_code :: "string \<Rightarrow> string + token_data"
  get_file :: "string \<Rightarrow> string + string"
  download_file :: "string \<Rightarrow> string \<Rightarrow> string option"
  uuid_hex :: string
  upload :: "string \<Rightarrow> string \<Rightarrow> string \<Rightarrow> string \<Rightarrow> token_data \<Rightarrow> string + string option"
  os_remove_raises :: bool
  now :: string

definition emit :: "event \<Rightarrow> world \<Rightarrow> world" where
  "emit e w = w\<lparr>calls := calls w @ [e]\<rparr>"

text \<open>\<^verbatim>\<open>state.clear()\<close>, \<^verbatim>\<open>state.set_state(s)\<close>, \<^verbatim>\<open>state.update_data(...)\<close>\<close>

definition state_clear :: "world \<Rightarrow> world" where
  "state_clear w = w\<lparr>fsm_state := None, fsm_data := empty_data\<rparr>"

definition set_state :: "upload_flow \<Rightarrow> world \<Rightarrow> world" where
  "set_state s w = w\<lparr>fsm_state := Some s\<rparr>"

definition update_data :: "(session_data \<Rightarrow> session_data) \<Rightarrow> world \<Rightarrow> world" where
  "update_data f w = w\<lparr>fsm_data := f (fsm_data w)\<rparr>"

definition store_token :: "int \<Rightarrow> string \<Rightarrow> token_data \<Rightarrow> world \<Rightarrow> world" where
  "store_token user_id platform td w =
     w\<lparr>tokens_file := set_user_token (tokens_file w) user_id platform td\<rparr>"

subsection \<open>Connecting and disconnecting a platform\<close>

definition begin_connect :: "string \<Rightarrow> bot_text \<Rightarrow> world \<Rightarrow> world" where
  "begin_connect platform prompt w =
     update_data (\<lambda>d. d\<lparr>connecting := Some platform\<rparr>)
       (set_state waiting_video (emit (Answer prompt) w))"

definition connect_platform :: "env \<Rightarrow> string \<Rightarrow> world \<Rightarrow> py_error option \<times> world" where
  "connect_platform env cb_data w =
     (let platform = replace_empty ''connect_'' cb_data;
          w1 =
            (if platform = ''youtube'' then
               (case get_auth_url env of
                  None \<Rightarrow> emit (Answer YouTubeNotConfigured) w
                | Some url \<Rightarrow>
                    if url \<noteq> [] then begin_connect ''youtube'' (ConnectYouTube url) w
                    else emit (Answer YouTubeNotConfigured) w)
             else if platform = ''vk'' then
               (if vk_app_id env \<noteq> [] then begin_connect ''vk'' (ConnectVK (vk_app_id env)) w
                else emit (Answer VKNotConfigured) w)
             else if platform = ''instagram'' then begin_connect ''instagram'' ConnectInstagram w
             else if platform = ''tiktok'' then
               (if tiktok_client_key env \<noteq> [] \<and> tiktok_redirect_uri env \<noteq> []
                then begin_connect ''tiktok''
                       (ConnectTikTok (tiktok_client_key env) (tiktok_redirect_uri env)) w
                else emit (Answer TikTokNotConfigured) w)
             else w)
      in (None, emit CallbackAnswer w1))"

definition disconnect_platform :: "int \<Rightarrow> string \<Rightarrow> world \<Rightarrow> py_error option \<times> world" where
  "disconnect_platform user_id cb_data w =
     (let platform = replace_empty ''disconnect_'' cb_data;
          w1 = w\<lparr>tokens_file := remove_user_token (tokens_file w) user_id platform\<rparr>
      in case map_of PLATFORMS platform of
           None \<Rightarrow> (Some (KeyError platform), w1)
         | Some info \<Rightarrow> (None, emit CallbackAnswer (emit (Answer (Disconnected (name info))) w1)))"

subsection \<open>The publish dialogue\<close>

definition cmd_post :: "world \<Rightarrow> py_error option \<times> world" where
  "cmd_post w = (None, set_state waiting_video (emit (Answer PromptVideo) (state_clear w)))"

definition connect_youtube :: "env \<Rightarrow> int \<Rightarrow> string \<Rightarrow> world \<Rightarrow> world" where
  "connect_youtube env user_id text w =
     (let w1 = emit (ExchangeCall ''youtube'' text) w in
      case youtube_exchange_code env text of
        Inr creds \<Rightarrow> emit (Answer YouTubeConnected) (store_token user_id ''youtube'' creds w1)
      | Inl e \<Rightarrow> emit (Answer (ExchangeError e)) w1)"

definition connect_vk :: "int \<Rightarrow> string \<Rightarrow> world \<Rightarrow> world" where
  "connect_vk user_id text w =
     (if contains ''access_token='' text then
        (case search_access_token text of
           Some token \<Rightarrow>
             emit (Answer VKConnected)
               (store_token user_id ''vk'' [(''access_token'', token)] w)
         | None \<Rightarrow> emit (Answer VKNoTokenInLink) w)
      else emit (Answer VKSendFullLink) w)"

definition connect_instagram :: "env \<Rightarrow> int \<Rightarrow> string \<Rightarrow> world \<Rightarrow> world" where
  "connect_instagram env user_id text w =
     (case split1 text of
        [username, password] \<Rightarrow>
          (let w1 = emit (ExchangeCall ''instagram'' text) w in
           case instagram_login env username password of
             Inr result \<Rightarrow>
               emit (Answer InstagramConnected)
                 (store_token user_id ''instagram''
                    [(''username'', username), (''session'', result)] w1)
           | Inl e \<Rightarrow> emit (Answer (LoginError e)) w1)
      | _ \<Rightarrow> emit (Answer InstagramSendPair) w)"

definition connect_tiktok :: "env \<Rightarrow> int \<Rightarrow> string \<Rightarrow> world \<Rightarrow> world" where
  "connect_tiktok env user_id text w =
     (let w1 = emit (ExchangeCall ''tiktok'' text) w in
      case tiktok_exchange_code env text of
        Inr token_data \<Rightarrow> emit (Answer TikTokConnected) (store_token user_id ''tiktok'' token_data w1)
      | Inl e \<Rightarrow> emit (Answer (ExchangeError e)) w1)"

definition handle_auth_text ::
  "env \<Rightarrow> int \<Rightarrow> string \<Rightarrow> world \<Rightarrow> py_error option \<times> world" where
  "handle_auth_text env user_id msg_text w =
     (case connecting (fsm_data w) of
        None \<Rightarrow> (None, emit (Answer RepromptVideo) w)
      | Some c \<Rightarrow>
          if c = [] then (None, emit (Answer RepromptVideo) w)
          else
            let text = strip msg_text;
                w1 =
                  (if c = ''youtube'' then connect_youtube env user_id text w
                   else if c = ''vk'' then connect_vk user_id text w
                   else if c = ''instagram'' then connect_instagram env user_id text w
                   else if c = ''tiktok'' then connect_tiktok env user_id text w
                   else w)
            in (None, state_clear w1))"

definition handle_video :: "string \<Rightarrow> int option \<Rightarrow> world \<Rightarrow> py_error option \<times> world" where
  "handle_video file_id file_size w =
     (let w1 = state_clear w in
      case file_size of
        None \<Rightarrow> (Some TypeError, w1)
      | Some sz \<Rightarrow>
          if sz > 256 * 1024 * 1024 then (None, emit (Answer VideoTooBig) w1)
          else
            (None,
             set_state waiting_title
               (emit (Answer AskTitle)
                  (update_data
                     (\<lambda>d. d\<lparr>video_file_id := Some file_id, video_file_size := Some sz\<rparr>) w1))))"

definition handle_video_note :: "world \<Rightarrow> py_error option \<times> world" where
  "handle_video_note w = (None, emit (Answer VideoNoteRefused) w)"

definition handle_title :: "env \<Rightarrow> string \<Rightarrow> world \<Rightarrow> py_error option \<times> world" where
  "handle_title env msg_text w =
     (let t = strip msg_text;
          t1 = (if t = ''-'' then ''Video '' @ now env else t)
      in (None,
          set_state waiting_description
            (emit (Answer AskDescription) (update_data (\<lambda>d. d\<lparr>title := Some t1\<rparr>) w))))"

text \<open>
  The loop that builds the platform buttons: \<^verbatim>\<open>PLATFORMS[p_id]\<close> raises on an identifier
  that is not registered.
\<close>

fun build_buttons :: "string list \<Rightarrow> string list \<Rightarrow> py_error + button list" where
  "build_buttons [] selected = Inr []"
| "build_buttons (p_id # rest) selected =
     (case map_of PLATFORMS p_id of
        None \<Rightarrow> Inl (KeyError p_id)
      | Some p_info \<Rightarrow>
          (case build_buttons rest selected of
             Inl e \<Rightarrow> Inl e
           | Inr bs \<Rightarrow> Inr (PlatformButton (p_id \<in> set selected) p_info (''toggle_'' @ p_id) # bs)))"

definition handle_description ::
  "int \<Rightarrow> string \<Rightarrow> world \<Rightarrow> py_error option \<times> world" where
  "handle_description user_id msg_text w =
     (let d0 = strip msg_text;
          desc = (if d0 = ''-'' then [] else d0);
          w1 = update_data (\<lambda>d. d\<lparr>description := Some desc\<rparr>) w;
          tokens = get_user_tokens (tokens_file w1) user_id
      in if tokens = [] then (None, state_clear (emit (Answer NoPlatformsConnected) w1))
         else
           let selected = map fst tokens;
               w2 = update_data (\<lambda>d. d\<lparr>selected_platforms := Some selected\<rparr>) w1
           in case build_buttons (map fst tokens) selected of
                Inl e \<Rightarrow> (Some e, w2)
              | Inr bs \<Rightarrow>
                  (None,
                   set_state choosing_platforms
                     (emit (AnswerKeyboard ChoosePlatforms (bs @ [PublishButton])) w2)))"

definition toggle :: "string \<Rightarrow> string list \<Rightarrow> string list" where
  "toggle platform selected =
     (if platform \<in> set selected then remove1 platform selected else selected @ [platform])"

definition selected_of :: "world \<Rightarrow> string list" where
  "selected_of w = (case selected_platforms (fsm_data w) of Some s \<Rightarrow> s | None \<Rightarrow> [])"

definition toggle_platform :: "int \<Rightarrow> string \<Rightarrow> world \<Rightarrow> py_error option \<times> world" where
  "toggle_platform user_id cb_data w =
     (let platform = replace_empty ''toggle_'' cb_data;
          selected = toggle platform (selected_of w);
          w1 = update_data (\<lambda>d. d\<lparr>selected_platforms := Some selected\<rparr>) w;
          tokens = get_user_tokens (tokens_file w1) user_id
      in case build_buttons (map fst tokens) selected of
           Inl e \<Rightarrow> (Some e, w1)
         | Inr bs \<Rightarrow>
             (None, emit CallbackAnswer (emit (EditReplyMarkup (Some (bs @ [PublishButton]))) w1)))"

subsection \<open>The publish orchestrator\<close>

text \<open>
  The loop over the selected platforms, with the two lists it appends to. The registry
  lookup is outside the \<^verbatim>\<open>try\<close>; the upload and the reading of its result are inside.
\<close>

fun upload_all ::
  "env \<Rightarrow> string \<Rightarrow> string \<Rightarrow> string \<Rightarrow> user_tokens \<Rightarrow> string list \<Rightarrow>
   report_line list \<Rightarrow> report_line list \<Rightarrow> world \<Rightarrow>
   py_error option \<times> report_line list \<times> report_line list \<times> world" where
  "upload_all env local_path ttl descr tokens [] results errors w = (None, results, errors, w)"
| "upload_all env local_path ttl descr tokens (p_id # rest) results errors w =
     (case map_of PLATFORMS p_id of
        None \<Rightarrow> (Some (KeyError p_id), results, errors, w)
      | Some p_info \<Rightarrow>
          (let p_tokens = (case map_of tokens p_id of Some t \<Rightarrow> t | None \<Rightarrow> []);
               w1 = emit (StatusEdit (UploadingTo p_info)) w;
               w2 = emit (UploadCall p_id local_path ttl descr p_tokens) w1
           in case upload env p_id local_path ttl descr p_tokens of
                Inr result \<Rightarrow>
                  upload_all env local_path ttl descr tokens rest
                    (results @
                     [SuccessLine p_info (case result of Some url \<Rightarrow> url | None \<Rightarrow> ''OK'')])
                    errors w2
              | Inl e \<Rightarrow>
                  upload_all env local_path ttl descr tokens rest results
                    (errors @ [FailureLine p_info e]) (emit (LogException p_id) w2)))"

text \<open>\<^verbatim>\<open>try: os.remove(local_path)  except: pass\<close>\<close>

definition cleanup :: "env \<Rightarrow> string \<Rightarrow> world \<Rightarrow> world" where
  "cleanup env local_path w =
     (let w1 = emit (OsRemove local_path) w in
      if os_remove_raises env \<or> local_path \<notin> set (local_files w1) then w1
      else w1\<lparr>local_files := removeAll local_path (local_files w1)\<rparr>)"

definition report_lines :: "report_line list \<Rightarrow> report_line list \<Rightarrow> report_line list" where
  "report_lines results errors =
     [Header] @ (if results \<noteq> [] then results else [])
       @ (if errors \<noteq> [] then Blank # errors else [])"

definition local_path_of :: "env \<Rightarrow> string" where
  "local_path_of env = ''downloads/'' @ uuid_hex env @ ''.mp4''"

definition title_of :: "world \<Rightarrow> string" where
  "title_of w = (case title (fsm_data w) of Some t \<Rightarrow> t | None \<Rightarrow> ''Video'')"

definition description_of :: "world \<Rightarrow> string" where
  "description_of w = (case description (fsm_data w) of Some d \<Rightarrow> d | None \<Rightarrow> [])"

definition publish :: "env \<Rightarrow> int \<Rightarrow> world \<Rightarrow> py_error option \<times> world" where
  "publish env user_id w =
     (let selected = selected_of w in
      if selected = [] then (None, emit (CallbackAlert SelectAtLeastOne) w)
      else
        let w1 = emit (Answer Downloading) (emit (EditReplyMarkup None) w);
            tokens = get_user_tokens (tokens_file w1) user_id;
            ttl = title_of w;
            descr = description_of w
        in case video_file_id (fsm_data w) of
             None \<Rightarrow> (Some (KeyError ''video_file_id''), w1)
           | Some file_id \<Rightarrow>
               (let w2 = emit (GetFile file_id) w1 in
                case get_file env file_id of
                  Inl e \<Rightarrow> (Some (CollaboratorError e), w2)
                | Inr file_path \<Rightarrow>
                    (let local_path = local_path_of env;
                         w3 = emit (DownloadFile file_path local_path) w2
                     in case download_file env file_path local_path of
                          Some e \<Rightarrow> (Some (CollaboratorError e), w3)
                        | None \<Rightarrow>
                            (let w4 = emit LogInfo
                                        (w3\<lparr>local_files := local_files w3 @ [local_path]\<rparr>)
                             in case upload_all env local_path ttl descr tokens selected [] [] w4 of
                                  (Some e, results, errors, w5) \<Rightarrow> (Some e, w5)
                                | (None, results, errors, w5) \<Rightarrow>
                                    (None,
                                     state_clear
                                       (emit (StatusEdit (Report (report_lines results errors)))
                                          (cleanup env local_path w5)))))))"

subsection \<open>Routing of updates\<close>

text \<open>
  The handlers in registration order, each behind its filter. \<open>TextMessage\<close> is a text
  message that no command filter takes; \<open>PostCommand\<close> is \<^verbatim>\<open>/post\<close>. The read-only commands
  (start, status, connect, disconnect, help) only send a message and are left out.
\<close>

datatype update =
  PostCommand
| TextMessage string
| VideoMessage string "int option"
| VideoNoteMessage
| CallbackQuery string

definition dispatch :: "env \<Rightarrow> int \<Rightarrow> update \<Rightarrow> world \<Rightarrow> py_error option \<times> world" where
  "dispatch env user_id u w =
     (case u of
        PostCommand \<Rightarrow> cmd_post w
      | TextMessage t \<Rightarrow>
          if fsm_state w = Some waiting_video then handle_auth_text env user_id t w
          else if fsm_state w = Some waiting_title then handle_title env t w
          else if fsm_state w = Some waiting_description then handle_description user_id t w
          else (None, w)
      | VideoMessage file_id file_size \<Rightarrow> handle_video file_id file_size w
      | VideoNoteMessage \<Rightarrow> handle_video_note w
      | CallbackQuery d \<Rightarrow>
          if prefix ''connect_'' d then connect_platform env d w
          else if prefix ''disconnect_'' d then disconnect_platform user_id d w
          else if fsm_state w = Some choosing_platforms \<and> prefix ''toggle_'' d
          then toggle_platform user_id d w
          else if fsm_state w = Some choosing_platforms \<and> d = ''publish'' then publish env user_id w
          else (None, w))"

section \<open>Notions used to state the properties\<close>

subsection \<open>What one platform's attempt contributes\<close>

definition registered :: "string \<Rightarrow> bool" where
  "registered p = (map_of PLATFORMS p \<noteq> None)"

text \<open>The upload call the loop makes for platform \<open>p\<close>, and what it gives back.\<close>

definition attempt ::
  "env \<Rightarrow> string \<Rightarrow> string \<Rightarrow> string \<Rightarrow> user_tokens \<Rightarrow> string \<Rightarrow> string + string option" where
  "attempt env lp t d tokens p =
     upload env p lp t d (case map_of tokens p of Some tk \<Rightarrow> tk | None \<Rightarrow> [])"

definition success_line ::
  "env \<Rightarrow> string \<Rightarrow> string \<Rightarrow> string \<Rightarrow> user_tokens \<Rightarrow> string \<Rightarrow> report_line list" where
  "success_line env lp t d tokens p =
     (case (map_of PLATFORMS p, attempt env lp t d tokens p) of
        (Some info, Inr r) \<Rightarrow> [SuccessLine info (case r of Some url \<Rightarrow> url | None \<Rightarrow> ''OK'')]
      | _ \<Rightarrow> [])"

definition failure_line ::
  "env \<Rightarrow> string \<Rightarrow> string \<Rightarrow> string \<Rightarrow> user_tokens \<Rightarrow> string \<Rightarrow> report_line list" where
  "failure_line env lp t d tokens p =
     (case (map_of PLATFORMS p, attempt env lp t d tokens p) of
        (Some info, Inl e) \<Rightarrow> [FailureLine info e]
      | _ \<Rightarrow> [])"

definition attempt_calls ::
  "env \<Rightarrow> string \<Rightarrow> string \<Rightarrow> string \<Rightarrow> user_tokens \<Rightarrow> string \<Rightarrow> event list" where
  "attempt_calls env lp t d tokens p =
     (case map_of PLATFORMS p of
        None \<Rightarrow> []
      | Some info \<Rightarrow>
          [StatusEdit (UploadingTo info),
           UploadCall p lp t d (case map_of tokens p of Some tk \<Rightarrow> tk | None \<Rightarrow> [])]
          @ (case attempt env lp t d tokens p of Inl e \<Rightarrow> [LogException p] | Inr r \<Rightarrow> []))"

text \<open>The same, for the publish run that starts in world \<open>w\<close>.\<close>

definition attempt_of :: "env \<Rightarrow> int \<Rightarrow> world \<Rightarrow> string \<Rightarrow> string + string option" where
  "attempt_of env user_id w p =
     attempt env (local_path_of env) (title_of w) (description_of w)
       (get_user_tokens (tokens_file w) user_id) p"

definition expected_results :: "env \<Rightarrow> int \<Rightarrow> world \<Rightarrow> report_line list" where
  "expected_results env user_id w =
     concat (map (success_line env (local_path_of env) (title_of w) (description_of w)
                    (get_user_tokens (tokens_file w) user_id)) (selected_of w))"

definition expected_errors :: "env \<Rightarrow> int \<Rightarrow> world \<Rightarrow> report_line list" where
  "expected_errors env user_id w =
     concat (map (failure_line env (local_path_of env) (title_of w) (description_of w)
                    (get_user_tokens (tokens_file w) user_id)) (selected_of w))"

definition expected_loop_calls :: "env \<Rightarrow> int \<Rightarrow> world \<Rightarrow> event list" where
  "expected_loop_calls env user_id w =
     concat (map (attempt_calls env (local_path_of env) (title_of w) (description_of w)
                    (get_user_tokens (tokens_file w) user_id)) (selected_of w))"

text \<open>
  The asset can be fetched: its reference is in the context and the download succeeds.
  A publish request that reaches the loop and can finish it: moreover the selection is
  not empty and every selected identifier is registered.
\<close>

definition asset_ready :: "env \<Rightarrow> world \<Rightarrow> bool" where
  "asset_ready env w =
     (case video_file_id (fsm_data w) of
        None \<Rightarrow> False
      | Some file_id \<Rightarrow>
          (case get_file env file_id of
             Inl e \<Rightarrow> False
           | Inr file_path \<Rightarrow> download_file env file_path (local_path_of env) = None))"

definition publish_ready :: "env \<Rightarrow> world \<Rightarrow> bool" where
  "publish_ready env w =
     (selected_of w \<noteq> [] \<and> list_all registered (selected_of w) \<and> asset_ready env w)"

definition download_calls :: "env \<Rightarrow> world \<Rightarrow> event list" where
  "download_calls env w =
     (case video_file_id (fsm_data w) of
        None \<Rightarrow> []
      | Some file_id \<Rightarrow>
          (case get_file env file_id of
             Inl e \<Rightarrow> []
           | Inr file_path \<Rightarrow>
               [EditReplyMarkup None, Answer Downloading, GetFile file_id,
                DownloadFile file_path (local_path_of env), LogInfo]))"

subsection \<open>Reading the recorded calls\<close>

fun reports :: "event list \<Rightarrow> report_line list list" where
  "reports [] = []"
| "reports (StatusEdit (Report ls) # es) = ls # reports es"
| "reports (e # es) = reports es"

fun upload_targets :: "event list \<Rightarrow> string list" where
  "upload_targets [] = []"
| "upload_targets (UploadCall p lp t d tk # es) = p # upload_targets es"
| "upload_targets (e # es) = upload_targets es"

fun removals :: "event list \<Rightarrow> string list" where
  "removals [] = []"
| "removals (OsRemove path # es) = path # removals es"
| "removals (e # es) = removals es"

fun exchanges :: "event list \<Rightarrow> string list" where
  "exchanges [] = []"
| "exchanges (ExchangeCall p text # es) = p # exchanges es"
| "exchanges (e # es) = exchanges es"

text \<open>The display names of the per-platform outcomes of a report, in the order shown.\<close>

fun outcome_names :: "report_line list \<Rightarrow> string list" where
  "outcome_names [] = []"
| "outcome_names (SuccessLine info url # ls) = name info # outcome_names ls"
| "outcome_names (FailureLine info e # ls) = name info # outcome_names ls"
| "outcome_names (l # ls) = outcome_names ls"

definition display_name :: "string \<Rightarrow> string" where
  "display_name p = (case map_of PLATFORMS p of Some info \<Rightarrow> name info | None \<Rightarrow> [])"

subsection \<open>A failed credential exchange\<close>

text \<open>
  What makes the credential input \<open>text\<close> fail for the platform being connected: the
  collaborator raises (YouTube, TikTok, Instagram login), the input is not a login and a
  password (Instagram), or no token can be read from the link (VK).
\<close>

definition exchange_fails :: "env \<Rightarrow> string \<Rightarrow> string \<Rightarrow> bool" where
  "exchange_fails env platform text =
     (if platform = ''youtube'' then isl (youtube_exchange_code env text)
      else if platform = ''vk'' then search_access_token text = None \<or> \<not> contains ''access_token='' text
      else if platform = ''instagram'' then
        (case split1 text of
           [username, password] \<Rightarrow> isl (instagram_login env username password)
         | _ \<Rightarrow> True)
      else if platform = ''tiktok'' then isl (tiktok_exchange_code env text)
      else False)"

subsection \<open>Concrete runs\<close>

text \<open>
  Collaborators for the concrete runs: the VK upload raises, the others return a URL; the
  chat service refuses the file \<open>big\<close>; code exchange accepts only the code \<open>good\<close>.
\<close>

definition env0 :: env where
  "env0 =
     \<lparr>get_auth_url = Some ''https://accounts.example/auth'',
      vk_app_id = ''51'',
      tiktok_client_key = ''key'',
      tiktok_redirect_uri = ''https://example/cb'',
      youtube_exchange_code =
        (\<lambda>code. if code = ''good'' then Inr [(''token'', ''yt'')] else Inl ''invalid_grant''),
      instagram_login = (\<lambda>u p. if p = ''secret'' then Inr ''sess'' else Inl ''bad password''),
      tiktok_exchange_code =
        (\<lambda>code. if code = ''good'' then Inr [(''token'', ''tt'')] else Inl ''invalid code''),
      get_file = (\<lambda>fid. if fid = ''big'' then Inl ''file is too big'' else Inr (''videos/'' @ fid)),
      download_file = (\<lambda>fp lp. None),
      uuid_hex = ''0a1b'',
      upload = (\<lambda>p lp t d tk. if p = ''vk'' then Inl ''boom'' else Inr (Some (''https://'' @ p))),
      os_remove_raises = False,
      now = ''2024-01-02 03:04''\<rparr>"

definition tokens0 :: "tokens_db option" where
  "tokens0 =
     Some [(7, [(''youtube'', [(''token'', ''yt'')]),
                (''vk'', [(''access_token'', ''v'')]),
                (''instagram'', [(''username'', ''u''), (''session'', ''s'')])])]"

text \<open>An idle conversation of user 7, who has three platforms connected.\<close>

definition w_idle :: world where
  "w_idle =
     \<lparr>fsm_state = None, fsm_data = empty_data, tokens_file = tokens0,
      local_files = [], calls = []\<rparr>"

text \<open>The same user after \<^verbatim>\<open>/connect\<close> and the YouTube button: a credential is awaited.\<close>

definition w_connecting :: world where
  "w_connecting =
     \<lparr>fsm_state = Some waiting_video,
      fsm_data = empty_data\<lparr>connecting := Some ''youtube''\<rparr>,
      tokens_file = tokens0, local_files = [], calls = []\<rparr>"

text \<open>The same user at the platform choice, with the three platforms selected.\<close>

definition select_data :: "string \<Rightarrow> session_data" where
  "select_data file_id =
     \<lparr>connecting = None, video_file_id = Some file_id, video_file_size = Some 1000,
      title = Some ''My clip'', description = Some [],
      selected_platforms = Some [''youtube'', ''vk'', ''instagram'']\<rparr>"

definition w_select :: "string \<Rightarrow> world" where
  "w_select file_id =
     \<lparr>fsm_state = Some choosing_platforms, fsm_data = select_data file_id,
      tokens_file = tokens0, local_files = [], calls = []\<rparr>"

subsection \<open>A text message that follows a video message\<close>

definition text_after_video ::
  "env \<Rightarrow> int \<Rightarrow> string \<Rightarrow> int option \<Rightarrow> string \<Rightarrow> world \<Rightarrow> py_error option \<times> world" where
  "text_after_video env user_id file_id sz t w =
     dispatch env user_id (TextMessage t) (snd (dispatch env user_id (VideoMessage file_id sz) w))"

section \<open>Properties\<close>

subsection \<open>The upload loop and the publish run\<close>

lemma upload_all_registered:
  "list_all registered ps \<Longrightarrow>
   upload_all env lp t d tokens ps results errors w =
     (None,
      results @ concat (map (success_line env lp t d tokens) ps),
      errors @ concat (map (failure_line env lp t d tokens) ps),
      w\<lparr>calls := calls w @ concat (map (attempt_calls env lp t d tokens) ps)\<rparr>)"
proof (induction ps arbitrary: results errors w)
  case Nil
  then show ?case by simp
next
  case (Cons p ps)
  then obtain info where info: "map_of PLATFORMS p = Some info"
    by (auto simp: registered_def)
  from Cons.prems have rest: "list_all registered ps" by simp
  show ?case
  proof (cases "upload env p lp t d (case map_of tokens p of Some tk \<Rightarrow> tk | None \<Rightarrow> [])")
    case (Inl e)
    then show ?thesis
      using info Cons.IH [OF rest]
      by (simp add: success_line_def failure_line_def attempt_calls_def attempt_def emit_def)
  next
    case (Inr r)
    then show ?thesis
      using info Cons.IH [OF rest]
      by (simp add: success_line_def failure_line_def attempt_calls_def attempt_def emit_def)
  qed
qed

lemma publish_ready_result:
  assumes "publish_ready env w"
  shows "publish env user_id w =
     (None,
      state_clear
        (emit (StatusEdit (Report (report_lines (expected_results env user_id w)
                                                 (expected_errors env user_id w))))
           (cleanup env (local_path_of env)
              (w\<lparr>local_files := local_files w @ [local_path_of env],
                  calls := calls w @ download_calls env w @ expected_loop_calls env user_id w\<rparr>))))"
proof -
  from assms obtain file_id file_path where
    sel: "selected_of w \<noteq> []" and reg: "list_all registered (selected_of w)" and
    fid: "video_file_id (fsm_data w) = Some file_id" and
    gf: "get_file env file_id = Inr file_path" and
    dl: "download_file env file_path (local_path_of env) = None"
    by (auto simp: publish_ready_def asset_ready_def split: option.splits sum.splits)
  show ?thesis
    using sel fid gf dl
    by (simp add: publish_def Let_def upload_all_registered [OF reg] download_calls_def emit_def
        expected_results_def expected_errors_def expected_loop_calls_def)
qed

subsection \<open>Reading the calls of a publish run\<close>

lemma reports_append: "reports (xs @ ys) = reports xs @ reports ys"
  by (induction xs rule: reports.induct) simp_all

lemma upload_targets_append: "upload_targets (xs @ ys) = upload_targets xs @ upload_targets ys"
  by (induction xs rule: upload_targets.induct) simp_all

lemma removals_append: "removals (xs @ ys) = removals xs @ removals ys"
  by (induction xs rule: removals.induct) simp_all

lemma reports_attempt_calls: "reports (concat (map (attempt_calls env lp t d tokens) ps)) = []"
  by (induction ps) (auto simp: reports_append attempt_calls_def split: option.splits sum.splits)

lemma removals_attempt_calls: "removals (concat (map (attempt_calls env lp t d tokens) ps)) = []"
  by (induction ps) (auto simp: removals_append attempt_calls_def split: option.splits sum.splits)

lemma upload_targets_attempt_calls:
  "list_all registered ps \<Longrightarrow>
   upload_targets (concat (map (attempt_calls env lp t d tokens) ps)) = ps"
  by (induction ps)
    (auto simp: upload_targets_append attempt_calls_def registered_def
          split: option.splits sum.splits)

lemma reports_download_calls: "reports (download_calls env w) = []"
  by (simp add: download_calls_def split: option.splits sum.splits)

lemma removals_download_calls: "removals (download_calls env w) = []"
  by (simp add: download_calls_def split: option.splits sum.splits)


lemma calls_cleanup: "calls (cleanup env lp w) = calls w @ [OsRemove lp]"
  by (simp add: cleanup_def emit_def Let_def)

lemma publish_ready_calls:
  assumes "publish_ready env w"
  shows "calls (snd (publish env user_id w)) =
     calls w @ download_calls env w @ expected_loop_calls env user_id w @
     [OsRemove (local_path_of env),
      StatusEdit (Report (report_lines (expected_results env user_id w)
                                       (expected_errors env user_id w)))]"
  by (simp add: publish_ready_result [OF assms] state_clear_def emit_def calls_cleanup)

subsection \<open>The publish report\<close>

text \<open>
  Claim C1, as amended. A publish request for the platforms \<open>a\<close>, \<open>b\<close>, \<open>c\<close>, attempted in
  that order, where the uploads to \<open>a\<close> and \<open>c\<close> return URLs and the upload to \<open>b\<close> raises,
  ends without an exception and sends one report. The report holds exactly three
  per-platform outcomes, grouped by result: the successes of \<open>a\<close> and \<open>c\<close> with their URLs,
  in attempt order, then a blank line, then the failure of \<open>b\<close> with its cause.
\<close>

theorem publish_report_groups_by_outcome:
  assumes ready: "publish_ready env w"
    and sel: "selected_of w = [a, b, c]"
    and a: "map_of PLATFORMS a = Some info_a" "attempt_of env user_id w a = Inr (Some url_a)"
    and b: "map_of PLATFORMS b = Some info_b" "attempt_of env user_id w b = Inl cause"
    and c: "map_of PLATFORMS c = Some info_c" "attempt_of env user_id w c = Inr (Some url_c)"
  shows "fst (publish env user_id w) = None \<and>
    reports (calls (snd (publish env user_id w))) =
      reports (calls w) @
      [[Header, SuccessLine info_a url_a, SuccessLine info_c url_c, Blank,
        FailureLine info_b cause]]"
proof -
  have res: "expected_results env user_id w = [SuccessLine info_a url_a, SuccessLine info_c url_c]"
    using sel a b c by (simp add: expected_results_def success_line_def attempt_of_def)
  have err: "expected_errors env user_id w = [FailureLine info_b cause]"
    using sel a b c by (simp add: expected_errors_def failure_line_def attempt_of_def)
  have "fst (publish env user_id w) = None"
    by (simp add: publish_ready_result [OF ready])
  moreover have "reports (calls (snd (publish env user_id w))) =
      reports (calls w) @
      [[Header, SuccessLine info_a url_a, SuccessLine info_c url_c, Blank,
        FailureLine info_b cause]]"
    by (simp add: publish_ready_calls [OF ready] reports_append reports_download_calls
        expected_loop_calls_def reports_attempt_calls res err report_lines_def)
  ultimately show ?thesis by simp
qed

text \<open>The amended claim C1 at YouTube, VK, Instagram, where the VK upload raises.\<close>

theorem publish_report_groups_by_outcome_witness:
  "publish_ready env0 (w_select ''f1'') \<and>
   selected_of (w_select ''f1'') = [''youtube'', ''vk'', ''instagram''] \<and>
   attempt_of env0 7 (w_select ''f1'') ''youtube'' = Inr (Some ''https://youtube'') \<and>
   attempt_of env0 7 (w_select ''f1'') ''vk'' = Inl ''boom'' \<and>
   attempt_of env0 7 (w_select ''f1'') ''instagram'' = Inr (Some ''https://instagram'') \<and>
   fst (publish env0 7 (w_select ''f1'')) = None \<and>
   reports (calls (snd (publish env0 7 (w_select ''f1'')))) =
     [[Header,
       SuccessLine \<lparr>name = ''YouTube Shorts'', emoji = PlayButton\<rparr> ''https://youtube'',
       SuccessLine \<lparr>name = ''Instagram Reels'', emoji = CameraFlash\<rparr> ''https://instagram'',
       Blank,
       FailureLine \<lparr>name = ''VK Clips'', emoji = MobilePhone\<rparr> ''boom'']]"
proof -
  have r: "publish_ready env0 (w_select ''f1'')" by code_simp
  have s: "selected_of (w_select ''f1'') = [''youtube'', ''vk'', ''instagram'']" by code_simp
  have a: "map_of PLATFORMS ''youtube'' = Some \<lparr>name = ''YouTube Shorts'', emoji = PlayButton\<rparr>"
    by (simp add: PLATFORMS_def)
  have a': "attempt_of env0 7 (w_select ''f1'') ''youtube'' = Inr (Some ''https://youtube'')"
    by code_simp
  have b: "map_of PLATFORMS ''vk'' = Some \<lparr>name = ''VK Clips'', emoji = MobilePhone\<rparr>"
    by (simp add: PLATFORMS_def)
  have b': "attempt_of env0 7 (w_select ''f1'') ''vk'' = Inl ''boom''"
    by code_simp
  have c: "map_of PLATFORMS ''instagram'' =
      Some \<lparr>name = ''Instagram Reels'', emoji = CameraFlash\<rparr>"
    by (simp add: PLATFORMS_def)
  have c': "attempt_of env0 7 (w_select ''f1'') ''instagram'' = Inr (Some ''https://instagram'')"
    by code_simp
  have e: "calls (w_select ''f1'') = []" by (simp add: w_select_def)
  show ?thesis
    using publish_report_groups_by_outcome [OF r s a a' b b' c c'] r s a' b' c' e by simp
qed

text \<open>
  Claim C1 as stated fails: with YouTube, VK and Instagram attempted in that order and VK
  failing, the outcomes of the report read YouTube, Instagram, VK, which is not the
  attempt order.
\<close>

theorem publish_report_not_in_attempt_order:
  "outcome_names (last (reports (calls (snd (publish env0 7 (w_select ''f1'')))))) =
     [''YouTube Shorts'', ''Instagram Reels'', ''VK Clips''] \<and>
   map display_name (selected_of (w_select ''f1'')) =
     [''YouTube Shorts'', ''VK Clips'', ''Instagram Reels''] \<and>
   outcome_names (last (reports (calls (snd (publish env0 7 (w_select ''f1'')))))) \<noteq>
     map display_name (selected_of (w_select ''f1''))"
  by code_simp

subsection \<open>Delivery of a video\<close>

text \<open>
  Claim C2, as amended. A video with a declared size is handled without an exception in
  every state. If the size is at most 256 MiB, the context afterwards holds the asset
  reference and the size and nothing else, and the state is \<open>waiting_title\<close>. If the size
  exceeds 256 MiB, no asset is recorded, the refusal is sent, the context is emptied and the
  state is reset to none (idle): the state does not remain \<open>waiting_video\<close> and the prior
  context is not kept.
\<close>

theorem handle_video_size_gate:
  "(sz \<le> 256 * 1024 * 1024 \<longrightarrow>
      fst (handle_video file_id (Some sz) w) = None \<and>
      fsm_state (snd (handle_video file_id (Some sz) w)) = Some waiting_title \<and>
      fsm_data (snd (handle_video file_id (Some sz) w)) =
        empty_data\<lparr>video_file_id := Some file_id, video_file_size := Some sz\<rparr>) \<and>
   (sz > 256 * 1024 * 1024 \<longrightarrow>
      fst (handle_video file_id (Some sz) w) = None \<and>
      fsm_state (snd (handle_video file_id (Some sz) w)) = None \<and>
      fsm_data (snd (handle_video file_id (Some sz) w)) = empty_data \<and>
      calls (snd (handle_video file_id (Some sz) w)) = calls w @ [Answer VideoTooBig])"
  by (simp add: handle_video_def state_clear_def emit_def update_data_def set_state_def)

text \<open>The amended claim C2 at exactly 256 MiB and at one byte more.\<close>

theorem handle_video_size_gate_witness:
  "(268435456::int) \<le> 256 * 1024 * 1024 \<and>
   fsm_state (snd (handle_video ''f1'' (Some 268435456) w_connecting)) = Some waiting_title \<and>
   video_file_id (fsm_data (snd (handle_video ''f1'' (Some 268435456) w_connecting))) =
     Some ''f1'' \<and>
   (268435457::int) > 256 * 1024 * 1024 \<and>
   fsm_state (snd (handle_video ''f1'' (Some 268435457) w_connecting)) = None \<and>
   fsm_data (snd (handle_video ''f1'' (Some 268435457) w_connecting)) = empty_data"
  using handle_video_size_gate [of 268435456 "''f1''" w_connecting]
    handle_video_size_gate [of 268435457 "''f1''" w_connecting]
  by (simp add: empty_data_def)

text \<open>
  Claim C2 as stated fails: an oversized video delivered while the state is
  \<open>waiting_video\<close> leaves a state other than \<open>waiting_video\<close> and a context other than
  the prior one.
\<close>

theorem oversized_video_leaves_awaiting_asset:
  "fsm_state w_connecting = Some waiting_video \<and>
   fsm_state (snd (handle_video ''f1'' (Some (256 * 1024 * 1024 + 1)) w_connecting)) \<noteq>
     Some waiting_video \<and>
   fsm_data (snd (handle_video ''f1'' (Some (256 * 1024 * 1024 + 1)) w_connecting)) \<noteq>
     fsm_data w_connecting"
  by (simp add: handle_video_def state_clear_def emit_def w_connecting_def empty_data_def)

subsection \<open>A failing download\<close>

text \<open>
  Claim C3 fails on the code. When the chat service refuses the file, the exception leaves
  the publish handler: nothing catches it, no report is sent, and the conversation stays
  in \<open>choosing_platforms\<close> with its keyboard already removed.
\<close>

theorem publish_download_failure_escapes:
  "fst (publish env0 7 (w_select ''big'')) = Some (CollaboratorError ''file is too big'') \<and>
   fsm_state (snd (publish env0 7 (w_select ''big''))) = Some choosing_platforms \<and>
   calls (snd (publish env0 7 (w_select ''big''))) =
     [EditReplyMarkup None, Answer Downloading, GetFile ''big'']"
  by code_simp

subsection \<open>The title\<close>

lemma strip_no_outer_space:
  "s = [] \<or> (\<not> is_space (hd s) \<and> \<not> is_space (last s)) \<Longrightarrow> strip s = s"
proof (cases s)
  case Nil
  then show ?thesis by (simp add: strip_def)
next
  case (Cons c cs)
  assume "s = [] \<or> (\<not> is_space (hd s) \<and> \<not> is_space (last s))"
  with Cons have h: "\<not> is_space c" and l: "\<not> is_space (last (c # cs))" by auto
  have 1: "dropWhile is_space s = s" using Cons h by simp
  have "rev s \<noteq> []" using Cons by simp
  then have "hd (rev s) = last s" by (simp add: hd_rev)
  then have "\<not> is_space (hd (rev s))" using l Cons by simp
  then have 2: "dropWhile is_space (rev s) = rev s"
    using \<open>rev s \<noteq> []\<close> by (cases "rev s") auto
  show ?thesis by (simp add: strip_def 1 2)
qed

text \<open>
  Claim C4, as amended. A text in the title step is first stripped of leading and trailing
  whitespace. If what remains is \<open>-\<close>, the title is the placeholder \<open>Video\<close> followed by the
  time stamp, which is not empty. Otherwise the title is the stripped text; it is the
  text as sent when that text neither starts nor ends with whitespace. The state becomes
  \<open>waiting_description\<close>.
\<close>

theorem handle_title_stores_stripped_text:
  "fst (handle_title env msg w) = None \<and>
   fsm_state (snd (handle_title env msg w)) = Some waiting_description \<and>
   (strip msg = ''-'' \<longrightarrow>
      title (fsm_data (snd (handle_title env msg w))) = Some (''Video '' @ now env) \<and>
      ''Video '' @ now env \<noteq> []) \<and>
   (strip msg \<noteq> ''-'' \<longrightarrow>
      title (fsm_data (snd (handle_title env msg w))) = Some (strip msg)) \<and>
   (msg \<noteq> [] \<and> \<not> is_space (hd msg) \<and> \<not> is_space (last msg) \<longrightarrow> strip msg = msg)"
  using strip_no_outer_space [of msg]
  by (simp add: handle_title_def Let_def set_state_def emit_def update_data_def)

text \<open>The amended claim C4 at a padded dash, a padded title and a plain title.\<close>

theorem handle_title_stores_stripped_text_witness:
  "strip '' - '' = ''-'' \<and>
   title (fsm_data (snd (handle_title env0 '' - '' w_idle))) = Some ''Video 2024-01-02 03:04'' \<and>
   strip '' My clip'' \<noteq> ''-'' \<and>
   title (fsm_data (snd (handle_title env0 '' My clip'' w_idle))) = Some ''My clip'' \<and>
   ''My clip'' \<noteq> [] \<and> \<not> is_space (hd ''My clip'') \<and> \<not> is_space (last ''My clip'') \<and>
   strip ''My clip'' = ''My clip''"
proof -
  have 1: "strip '' - '' = ''-''" by code_simp
  have 2: "strip '' My clip'' = ''My clip''" by code_simp
  have 3: "\<not> is_space (hd ''My clip'') \<and> \<not> is_space (last ''My clip'')" by code_simp
  have 4: "now env0 = ''2024-01-02 03:04''" by (simp add: env0_def)
  show ?thesis
    using handle_title_stores_stripped_text [of env0 "'' - ''" w_idle]
      handle_title_stores_stripped_text [of env0 "'' My clip''" w_idle]
      handle_title_stores_stripped_text [of env0 "''My clip''" w_idle] 1 2 3 4
    by simp
qed

text \<open>
  Claim C4 as stated fails: a title sent with a leading space is not the literal \<open>-\<close>,
  and the stored title is not the text as sent.
\<close>

theorem title_not_stored_verbatim:
  "title (fsm_data (snd (handle_title env0 '' My clip'' w_idle))) = Some ''My clip'' \<and>
   title (fsm_data (snd (handle_title env0 '' My clip'' w_idle))) \<noteq> Some '' My clip''"
  by code_simp

subsection \<open>Toggling a platform\<close>

lemma toggle_distinct: "distinct sel \<Longrightarrow> distinct (toggle p sel)"
  by (simp add: toggle_def)

lemma toggle_twice:
  assumes "distinct sel"
  shows "set (toggle p (toggle p sel)) = set sel \<and> distinct (toggle p (toggle p sel))"
proof (cases "p \<in> set sel")
  case True
  with assms have "p \<notin> set (remove1 p sel)" by simp
  with True assms show ?thesis by (auto simp: toggle_def)
next
  case False
  then have "remove1 p (sel @ [p]) = sel" by (simp add: remove1_append remove1_idem)
  with False assms show ?thesis by (simp add: toggle_def)
qed

lemma selected_of_toggle_platform:
  "selected_of (snd (toggle_platform user_id d w)) =
     toggle (replace_empty ''toggle_'' d) (selected_of w)"
  by (simp add: toggle_platform_def Let_def selected_of_def update_data_def emit_def
      split: sum.splits)

lemma fsm_state_toggle_platform:
  "fsm_state (snd (toggle_platform user_id d w)) = fsm_state w"
  by (simp add: toggle_platform_def Let_def update_data_def emit_def split: sum.splits)

text \<open>
  The selection that the description step builds has no repeated identifier when the
  user's token dict has none, and a toggle keeps it so (\<open>toggle_distinct\<close>).
\<close>

lemma handle_description_selected_distinct:
  "distinct (map fst (get_user_tokens (tokens_file w) user_id)) \<Longrightarrow>
   distinct (selected_of (snd (handle_description user_id msg w)))"
  by (simp add: handle_description_def Let_def selected_of_def update_data_def emit_def
      set_state_def state_clear_def empty_data_def split: sum.splits)

text \<open>
  Claim C5. The selection is a list without repetition. Applying the toggle for the same
  callback data twice gives back the same set of selected identifiers, again without
  repetition, and leaves the state where it was. (The set is restored; an identifier that
  was selected before is moved to the end of the list.)
\<close>

theorem toggle_twice_restores_selected_set:
  assumes "distinct (selected_of w)"
  shows "set (selected_of (snd (toggle_platform user_id d (snd (toggle_platform user_id d w))))) =
           set (selected_of w) \<and>
         distinct (selected_of
           (snd (toggle_platform user_id d (snd (toggle_platform user_id d w))))) \<and>
         fsm_state (snd (toggle_platform user_id d (snd (toggle_platform user_id d w)))) =
           fsm_state w"
  using toggle_twice [OF assms]
  by (simp add: selected_of_toggle_platform fsm_state_toggle_platform)

text \<open>Claim C5 at the VK button, with YouTube, VK and Instagram selected.\<close>

theorem toggle_twice_restores_selected_set_witness:
  "distinct (selected_of (w_select ''f1'')) \<and>
   set (selected_of (snd (toggle_platform 7 ''toggle_vk'' (w_select ''f1'')))) =
     {''youtube'', ''instagram''} \<and>
   set (selected_of (snd (toggle_platform 7 ''toggle_vk''
          (snd (toggle_platform 7 ''toggle_vk'' (w_select ''f1'')))))) =
     {''youtube'', ''vk'', ''instagram''} \<and>
   fsm_state (snd (toggle_platform 7 ''toggle_vk''
          (snd (toggle_platform 7 ''toggle_vk'' (w_select ''f1''))))) = Some choosing_platforms"
proof -
  have d: "distinct (selected_of (w_select ''f1''))" by code_simp
  have s: "selected_of (w_select ''f1'') = [''youtube'', ''vk'', ''instagram'']" by code_simp
  have t: "selected_of (snd (toggle_platform 7 ''toggle_vk'' (w_select ''f1''))) =
      [''youtube'', ''instagram'']"
    by code_simp
  have f: "fsm_state (w_select ''f1'') = Some choosing_platforms" by (simp add: w_select_def)
  show ?thesis
    using toggle_twice_restores_selected_set [OF d, of 7 "''toggle_vk''"] d s t f by auto
qed

subsection \<open>Isolation of the platform attempts\<close>





subsection \<open>A failed credential exchange\<close>

text \<open>
  Claim C7. While a platform is being connected, a credential input whose exchange fails
  leaves the token file exactly as it was, raises nothing, and ends with the conversation
  idle: no state and an empty context.
\<close>

theorem failed_exchange_keeps_store:
  assumes "connecting (fsm_data w) = Some p" and "exchange_fails env p (strip msg)"
  shows "fst (handle_auth_text env user_id msg w) = None \<and>
         tokens_file (snd (handle_auth_text env user_id msg w)) = tokens_file w \<and>
         fsm_state (snd (handle_auth_text env user_id msg w)) = None \<and>
         fsm_data (snd (handle_auth_text env user_id msg w)) = empty_data"
proof -
  from assms(2) have ne: "p \<noteq> []"
    by (auto simp: exchange_fails_def)
  have yt: "p = ''youtube'' \<Longrightarrow>
      tokens_file (connect_youtube env user_id (strip msg) w) = tokens_file w"
    using assms(2)
    by (auto simp: exchange_fails_def connect_youtube_def emit_def Let_def split: sum.splits)
  have vk: "p = ''vk'' \<Longrightarrow> tokens_file (connect_vk user_id (strip msg) w) = tokens_file w"
    using assms(2) by (auto simp: exchange_fails_def connect_vk_def emit_def)
  have ig: "p = ''instagram'' \<Longrightarrow>
      tokens_file (connect_instagram env user_id (strip msg) w) = tokens_file w"
    using assms(2)
    by (auto simp: exchange_fails_def connect_instagram_def emit_def Let_def
        split: sum.splits list.splits)
  have tt: "p = ''tiktok'' \<Longrightarrow>
      tokens_file (connect_tiktok env user_id (strip msg) w) = tokens_file w"
    using assms(2)
    by (auto simp: exchange_fails_def connect_tiktok_def emit_def Let_def split: sum.splits)
  show ?thesis
    using assms(1) ne yt vk ig tt
    by (simp add: handle_auth_text_def Let_def state_clear_def)
qed

text \<open>Claim C7 for a YouTube code that the exchange rejects.\<close>

theorem failed_exchange_keeps_store_witness:
  "connecting (fsm_data w_connecting) = Some ''youtube'' \<and>
   exchange_fails env0 ''youtube'' (strip '' expired-code '') \<and>
   fst (handle_auth_text env0 7 '' expired-code '' w_connecting) = None \<and>
   tokens_file (snd (handle_auth_text env0 7 '' expired-code '' w_connecting)) = tokens0 \<and>
   fsm_state (snd (handle_auth_text env0 7 '' expired-code '' w_connecting)) = None \<and>
   fsm_data (snd (handle_auth_text env0 7 '' expired-code '' w_connecting)) = empty_data"
proof -
  have c: "connecting (fsm_data w_connecting) = Some ''youtube''"
    by (simp add: w_connecting_def empty_data_def)
  have f: "exchange_fails env0 ''youtube'' (strip '' expired-code '')" by code_simp
  have t: "tokens_file w_connecting = tokens0" by (simp add: w_connecting_def)
  show ?thesis
    using failed_exchange_keeps_store [OF c f, of 7] c f t by simp
qed

subsection \<open>A platform identifier that is not registered\<close>





subsection \<open>Removal of the local copy\<close>

lemma local_files_cleanup:
  "\<not> os_remove_raises env \<Longrightarrow> lp \<notin> set (local_files (cleanup env lp w))"
  by (simp add: cleanup_def emit_def Let_def)

text \<open>
  Claim C9. In a publish run whose selected platforms are all registered and whose asset
  was downloaded, whatever the uploads return or raise and whether or not the removal
  itself raises: no exception leaves the handler; the run calls the removal of the local
  copy exactly once; that call comes after the calls of all the selected platforms and
  before the report; and when the removal does not raise, the local copy is gone.
\<close>

theorem publish_removes_local_copy_once:
  assumes ready: "publish_ready env w"
  shows "fst (publish env user_id w) = None \<and>
    removals (calls (snd (publish env user_id w))) = removals (calls w) @ [local_path_of env] \<and>
    calls (snd (publish env user_id w)) =
      calls w @ download_calls env w @ expected_loop_calls env user_id w @
      [OsRemove (local_path_of env),
       StatusEdit (Report (report_lines (expected_results env user_id w)
                                        (expected_errors env user_id w)))] \<and>
    upload_targets (expected_loop_calls env user_id w) = selected_of w \<and>
    (\<not> os_remove_raises env \<longrightarrow>
       local_path_of env \<notin> set (local_files (snd (publish env user_id w))))"
proof -
  from ready have reg: "list_all registered (selected_of w)"
    by (simp add: publish_ready_def)
  have 1: "fst (publish env user_id w) = None"
    by (simp add: publish_ready_result [OF ready])
  have 2: "removals (calls (snd (publish env user_id w))) =
      removals (calls w) @ [local_path_of env]"
    by (simp add: publish_ready_calls [OF ready] removals_append removals_download_calls
        expected_loop_calls_def removals_attempt_calls)
  have 3: "upload_targets (expected_loop_calls env user_id w) = selected_of w"
    by (simp add: expected_loop_calls_def upload_targets_attempt_calls [OF reg])
  have 4: "\<not> os_remove_raises env \<longrightarrow>
       local_path_of env \<notin> set (local_files (snd (publish env user_id w)))"
    by (simp add: publish_ready_result [OF ready] state_clear_def emit_def local_files_cleanup)
  from 1 2 3 4 publish_ready_calls [OF ready, of user_id] show ?thesis by blast
qed

text \<open>
  Claim C9 with the VK upload raising: once where the removal raises too, once where it
  does not.
\<close>

theorem publish_removes_local_copy_once_witness:
  "publish_ready (env0\<lparr>os_remove_raises := True\<rparr>) (w_select ''f1'') \<and>
   fst (publish (env0\<lparr>os_remove_raises := True\<rparr>) 7 (w_select ''f1'')) = None \<and>
   removals (calls (snd (publish (env0\<lparr>os_remove_raises := True\<rparr>) 7 (w_select ''f1'')))) =
     [''downloads/0a1b.mp4''] \<and>
   publish_ready env0 (w_select ''f1'') \<and>
   \<not> os_remove_raises env0 \<and>
   removals (calls (snd (publish env0 7 (w_select ''f1'')))) = [''downloads/0a1b.mp4''] \<and>
   ''downloads/0a1b.mp4'' \<notin> set (local_files (snd (publish env0 7 (w_select ''f1''))))"
proof -
  have r1: "publish_ready (env0\<lparr>os_remove_raises := True\<rparr>) (w_select ''f1'')" by code_simp
  have r0: "publish_ready env0 (w_select ''f1'')" by code_simp
  have n: "\<not> os_remove_raises env0" by (simp add: env0_def)
  have l1: "local_path_of (env0\<lparr>os_remove_raises := True\<rparr>) = ''downloads/0a1b.mp4''"
    by (simp add: local_path_of_def env0_def)
  have l0: "local_path_of env0 = ''downloads/0a1b.mp4''"
    by (simp add: local_path_of_def env0_def)
  have c: "removals (calls (w_select ''f1'')) = []" by (simp add: w_select_def)
  note t1 = publish_removes_local_copy_once [OF r1, of 7]
  note t0 = publish_removes_local_copy_once [OF r0, of 7]
  have "fst (publish (env0\<lparr>os_remove_raises := True\<rparr>) 7 (w_select ''f1'')) = None"
    using t1 [THEN conjunct1] .
  moreover have "removals (calls (snd (publish (env0\<lparr>os_remove_raises := True\<rparr>) 7
      (w_select ''f1'')))) = [''downloads/0a1b.mp4'']"
    using t1 [THEN conjunct2, THEN conjunct1] by (simp add: l1 c)
  moreover have "removals (calls (snd (publish env0 7 (w_select ''f1'')))) =
      [''downloads/0a1b.mp4'']"
    using t0 [THEN conjunct2, THEN conjunct1] by (simp add: l0 c)
  moreover have
    "''downloads/0a1b.mp4'' \<notin> set (local_files (snd (publish env0 7 (w_select ''f1''))))"
    using t0 [THEN conjunct2, THEN conjunct2, THEN conjunct2, THEN conjunct2] n
    by (simp add: l0)
  ultimately show ?thesis using r1 r0 n by simp
qed

subsection \<open>A video during a pending connection\<close>







text \<open>
  A run of it: while the YouTube connection is pending, the text \<open>good\<close> is exchanged as
  its code; sent after a video, the same text is exchanged nowhere and becomes the title.
\<close>

lemma pending_connection_example:
  "exchanges (calls (snd (dispatch env0 7 (TextMessage ''good'') w_connecting))) = [''youtube''] \<and>
   exchanges (calls (snd (text_after_video env0 7 ''f1'' (Some 1000) ''good'' w_connecting))) = [] \<and>
   title (fsm_data (snd (text_after_video env0 7 ''f1'' (Some 1000) ''good'' w_connecting))) =
     Some ''good''"
  by code_simp

end
